theory Spec2Isabelle
  imports Main "HOL-Library.Word"
begin

unbundle bit_operations_syntax

section \<open>The strong value wrapper \<open>qip::StrongType\<close>\<close>

text \<open>
  \<^verbatim>\<open>template <typename enumT, enumT enumV, typename BaseT> struct StrongType\<close>
  (src/strongtype.hpp) has one data member, \<^verbatim>\<open>BaseT value\<close>. The tag
  \<^verbatim>\<open>enumT, enumV\<close> is part of the type only. The representation type \<^verbatim>\<open>BaseT\<close> is the
  type parameter \<open>'b\<close>; the built-in operators of \<^verbatim>\<open>BaseT\<close> that the member
  functions call are passed in as records of functions (\<open>arith_ops\<close>, \<open>cmp_ops\<close>),
  and instantiated further down for the integer types and for the comparisons of
  IEEE 754 doubles.
\<close>

record 'b StrongType =
  "value" :: 'b

text \<open>
  Objects of one instantiation live in a store, at addresses. A parameter of
  reference type that the callee may write through (\<^verbatim>\<open>this\<close>, \<^verbatim>\<open>StrongT &\<close>), and a
  parameter object passed by value, is the address of an object; a function that
  returns \<^verbatim>\<open>StrongT &\<close> returns an address, one that returns \<^verbatim>\<open>StrongT\<close>
  returns a copy of the object. Functions whose parameters are all
  \<^verbatim>\<open>const\<close> references only read them and are modelled on the objects read.
\<close>

type_synonym addr = nat

type_synonym 'b store = "addr \<Rightarrow> 'b StrongType"

text \<open>A \<^verbatim>\<open>BaseT &\<close> that refers to the member \<^verbatim>\<open>value\<close> of the object at an address.\<close>

datatype ref = ValueOf addr

fun read_ref :: "'b store \<Rightarrow> ref \<Rightarrow> 'b" where
  "read_ref s (ValueOf a) = value (s a)"

fun write_ref :: "'b store \<Rightarrow> ref \<Rightarrow> 'b \<Rightarrow> 'b store" where
  "write_ref s (ValueOf a) v = s(a := (s a)\<lparr>value := v\<rparr>)"

subsection \<open>Construction and conversion (lines 44-47)\<close>

text \<open>\<^verbatim>\<open>explicit constexpr StrongType(BaseT tv) : value(tv) {}\<close>\<close>

definition StrongType_ctor :: "'b \<Rightarrow> 'b StrongType" where
  "StrongType_ctor tv = \<lparr>value = tv\<rparr>"

text \<open>\<^verbatim>\<open>explicit constexpr operator BaseT() const { return value; }\<close>\<close>

definition operator_BaseT :: "'b StrongType \<Rightarrow> 'b" where
  "operator_BaseT this = value this"

text \<open>\<^verbatim>\<open>constexpr BaseT &as_base() { return value; }\<close>\<close>

definition as_base :: "addr \<Rightarrow> ref" where
  "as_base this = ValueOf this"

text \<open>\<^verbatim>\<open>[[nodiscard]] constexpr BaseT as_base() const { return value; }\<close>\<close>

definition as_base_const :: "'b StrongType \<Rightarrow> 'b" where
  "as_base_const this = value this"

subsection \<open>The built-in arithmetic of \<^verbatim>\<open>BaseT\<close> that the wrapper calls\<close>

text \<open>
  Undefined behaviour of a built-in operation is an error value: the wrapper has
  no check of its own, so whatever the primitive does is what the wrapper does.
\<close>

datatype ub = DivisionByZero | SignedOverflow

text \<open>
  The compound assignments \<^verbatim>\<open>x *= y\<close>, \<^verbatim>\<open>x /= y\<close>, \<^verbatim>\<open>x += y\<close>, \<^verbatim>\<open>x -= y\<close> and
  the prefix \<^verbatim>\<open>++x\<close>, \<^verbatim>\<open>--x\<close> on lvalues of type \<^verbatim>\<open>BaseT\<close>: each maps the old
  content of \<^verbatim>\<open>x\<close> (and \<^verbatim>\<open>y\<close>) to the new content of \<^verbatim>\<open>x\<close>.
\<close>

record 'b arith_ops =
  base_mul_assign :: "'b \<Rightarrow> 'b \<Rightarrow> ub + 'b"
  base_div_assign :: "'b \<Rightarrow> 'b \<Rightarrow> ub + 'b"
  base_add_assign :: "'b \<Rightarrow> 'b \<Rightarrow> ub + 'b"
  base_sub_assign :: "'b \<Rightarrow> 'b \<Rightarrow> ub + 'b"
  base_pre_inc :: "'b \<Rightarrow> ub + 'b"
  base_pre_dec :: "'b \<Rightarrow> ub + 'b"

text \<open>
  The body shared by every mutating member:
  \<^verbatim>\<open>this->value OP ...; return *this;\<close>. The new content of the member is
  written to the object at \<open>this\<close>, and the reference \<^verbatim>\<open>*this\<close> is returned.
\<close>

definition assign_value :: "addr \<Rightarrow> ub + 'b \<Rightarrow> 'b store \<Rightarrow> ub + addr \<times> 'b store" where
  "assign_value this r s =
     (case r of
        Inl e \<Rightarrow> Inl e
      | Inr v \<Rightarrow> Inr (this, s(this := (s this)\<lparr>value := v\<rparr>)))"

text \<open>
  \<^verbatim>\<open>return lhs OP= rhs;\<close> in a function that returns \<^verbatim>\<open>StrongT\<close> by value: the
  result is a copy of the object the returned reference designates.
\<close>

definition return_copy :: "ub + addr \<times> 'b store \<Rightarrow> ub + 'b StrongType \<times> 'b store" where
  "return_copy r =
     (case r of
        Inl e \<Rightarrow> Inl e
      | Inr (a, s) \<Rightarrow> Inr (s a, s))"

text \<open>
  The caller of a function with a \<^verbatim>\<open>StrongT\<close> parameter passed by value
  copy-initialises the parameter object, at an address \<open>p\<close> of its own, from the
  argument at \<open>a\<close>.
\<close>

definition copy_init :: "addr \<Rightarrow> addr \<Rightarrow> 'b store \<Rightarrow> 'b store" where
  "copy_init p a s = s(p := s a)"

subsection \<open>Arithmetic between strong values (lines 52-79)\<close>

text \<open>
  \<^verbatim>\<open>constexpr StrongT &operator*=(const StrongT &rhs) { this->value *= rhs.value; return *this; }\<close>
\<close>

definition operator_mul_assign ::
  "'b arith_ops \<Rightarrow> addr \<Rightarrow> addr \<Rightarrow> 'b store \<Rightarrow> ub + addr \<times> 'b store" where
  "operator_mul_assign B this rhs s =
     assign_value this (base_mul_assign B (value (s this)) (value (s rhs))) s"

text \<open>\<^verbatim>\<open>friend constexpr StrongT operator*(StrongT lhs, const StrongT &rhs) { return lhs *= rhs; }\<close>\<close>

definition operator_mul ::
  "'b arith_ops \<Rightarrow> addr \<Rightarrow> addr \<Rightarrow> 'b store \<Rightarrow> ub + 'b StrongType \<times> 'b store" where
  "operator_mul B lhs rhs s = return_copy (operator_mul_assign B lhs rhs s)"

text \<open>
  \<^verbatim>\<open>constexpr StrongT &operator/=(const StrongT &rhs) { this->value /= rhs.value; return *this; }\<close>
\<close>

definition operator_div_assign ::
  "'b arith_ops \<Rightarrow> addr \<Rightarrow> addr \<Rightarrow> 'b store \<Rightarrow> ub + addr \<times> 'b store" where
  "operator_div_assign B this rhs s =
     assign_value this (base_div_assign B (value (s this)) (value (s rhs))) s"

text \<open>\<^verbatim>\<open>friend constexpr StrongT operator/(StrongT lhs, const StrongT &rhs) { return lhs /= rhs; }\<close>\<close>

definition operator_div ::
  "'b arith_ops \<Rightarrow> addr \<Rightarrow> addr \<Rightarrow> 'b store \<Rightarrow> ub + 'b StrongType \<times> 'b store" where
  "operator_div B lhs rhs s = return_copy (operator_div_assign B lhs rhs s)"

text \<open>
  \<^verbatim>\<open>constexpr StrongT &operator+=(const StrongT &rhs) { this->value += rhs.value; return *this; }\<close>
\<close>

definition operator_add_assign ::
  "'b arith_ops \<Rightarrow> addr \<Rightarrow> addr \<Rightarrow> 'b store \<Rightarrow> ub + addr \<times> 'b store" where
  "operator_add_assign B this rhs s =
     assign_value this (base_add_assign B (value (s this)) (value (s rhs))) s"

text \<open>\<^verbatim>\<open>friend constexpr StrongT operator+(StrongT lhs, const StrongT &rhs) { return lhs += rhs; }\<close>\<close>

definition operator_add ::
  "'b arith_ops \<Rightarrow> addr \<Rightarrow> addr \<Rightarrow> 'b store \<Rightarrow> ub + 'b StrongType \<times> 'b store" where
  "operator_add B lhs rhs s = return_copy (operator_add_assign B lhs rhs s)"

text \<open>
  \<^verbatim>\<open>constexpr StrongT &operator-=(const StrongT &rhs) { this->value -= rhs.value; return *this; }\<close>
\<close>

definition operator_sub_assign ::
  "'b arith_ops \<Rightarrow> addr \<Rightarrow> addr \<Rightarrow> 'b store \<Rightarrow> ub + addr \<times> 'b store" where
  "operator_sub_assign B this rhs s =
     assign_value this (base_sub_assign B (value (s this)) (value (s rhs))) s"

text \<open>\<^verbatim>\<open>friend constexpr StrongT operator-(StrongT lhs, const StrongT &rhs) { return lhs -= rhs; }\<close>\<close>

definition operator_sub ::
  "'b arith_ops \<Rightarrow> addr \<Rightarrow> addr \<Rightarrow> 'b store \<Rightarrow> ub + 'b StrongType \<times> 'b store" where
  "operator_sub B lhs rhs s = return_copy (operator_sub_assign B lhs rhs s)"

subsection \<open>Scaling by a bare \<^verbatim>\<open>BaseT\<close> (lines 82-102)\<close>

text \<open>
  The \<^verbatim>\<open>const BaseT &\<close> operand is read once, before the member is written, so
  it is passed as the value read.

  \<^verbatim>\<open>constexpr StrongT &operator*=(const BaseT &rhs) { this->value *= rhs; return *this; }\<close>
\<close>

definition operator_mul_assign_BaseT ::
  "'b arith_ops \<Rightarrow> addr \<Rightarrow> 'b \<Rightarrow> 'b store \<Rightarrow> ub + addr \<times> 'b store" where
  "operator_mul_assign_BaseT B this rhs s =
     assign_value this (base_mul_assign B (value (s this)) rhs) s"

text \<open>\<^verbatim>\<open>friend constexpr StrongT operator*(StrongT lhs, const BaseT &rhs) { return lhs *= rhs; }\<close>\<close>

definition operator_mul_StrongT_BaseT ::
  "'b arith_ops \<Rightarrow> addr \<Rightarrow> 'b \<Rightarrow> 'b store \<Rightarrow> ub + 'b StrongType \<times> 'b store" where
  "operator_mul_StrongT_BaseT B lhs rhs s = return_copy (operator_mul_assign_BaseT B lhs rhs s)"

text \<open>\<^verbatim>\<open>friend constexpr StrongT operator*(const BaseT &lhs, StrongT rhs) { return rhs *= lhs; }\<close>\<close>

definition operator_mul_BaseT_StrongT ::
  "'b arith_ops \<Rightarrow> 'b \<Rightarrow> addr \<Rightarrow> 'b store \<Rightarrow> ub + 'b StrongType \<times> 'b store" where
  "operator_mul_BaseT_StrongT B lhs rhs s = return_copy (operator_mul_assign_BaseT B rhs lhs s)"

text \<open>\<^verbatim>\<open>constexpr StrongT &operator/=(const BaseT &rhs) { this->value /= rhs; return *this; }\<close>\<close>

definition operator_div_assign_BaseT ::
  "'b arith_ops \<Rightarrow> addr \<Rightarrow> 'b \<Rightarrow> 'b store \<Rightarrow> ub + addr \<times> 'b store" where
  "operator_div_assign_BaseT B this rhs s =
     assign_value this (base_div_assign B (value (s this)) rhs) s"

text \<open>\<^verbatim>\<open>friend constexpr StrongT operator/(StrongT lhs, const BaseT &rhs) { return lhs /= rhs; }\<close>\<close>

definition operator_div_StrongT_BaseT ::
  "'b arith_ops \<Rightarrow> addr \<Rightarrow> 'b \<Rightarrow> 'b store \<Rightarrow> ub + 'b StrongType \<times> 'b store" where
  "operator_div_StrongT_BaseT B lhs rhs s = return_copy (operator_div_assign_BaseT B lhs rhs s)"

subsection \<open>Increment and decrement (lines 105-122)\<close>

text \<open>\<^verbatim>\<open>constexpr StrongT &operator++() { ++value; return *this; }\<close>\<close>

definition operator_pre_inc ::
  "'b arith_ops \<Rightarrow> addr \<Rightarrow> 'b store \<Rightarrow> ub + addr \<times> 'b store" where
  "operator_pre_inc B this s = assign_value this (base_pre_inc B (value (s this))) s"

text \<open>
  \<^verbatim>\<open>constexpr StrongT operator++(int) { StrongT result(*this); ++(*this); return result; }\<close>
\<close>

definition operator_post_inc ::
  "'b arith_ops \<Rightarrow> addr \<Rightarrow> 'b store \<Rightarrow> ub + 'b StrongType \<times> 'b store" where
  "operator_post_inc B this s =
     (let result = s this in
      case operator_pre_inc B this s of
        Inl e \<Rightarrow> Inl e
      | Inr (_, s') \<Rightarrow> Inr (result, s'))"

text \<open>\<^verbatim>\<open>constexpr StrongT &operator--() { --value; return *this; }\<close>\<close>

definition operator_pre_dec ::
  "'b arith_ops \<Rightarrow> addr \<Rightarrow> 'b store \<Rightarrow> ub + addr \<times> 'b store" where
  "operator_pre_dec B this s = assign_value this (base_pre_dec B (value (s this))) s"

text \<open>
  \<^verbatim>\<open>constexpr StrongT operator--(int) { StrongT result(*this); --(*this); return result; }\<close>
\<close>

definition operator_post_dec ::
  "'b arith_ops \<Rightarrow> addr \<Rightarrow> 'b store \<Rightarrow> ub + 'b StrongType \<times> 'b store" where
  "operator_post_dec B this s =
     (let result = s this in
      case operator_pre_dec B this s of
        Inl e \<Rightarrow> Inl e
      | Inr (_, s') \<Rightarrow> Inr (result, s'))"

subsection \<open>Comparison of strong values (lines 125-142)\<close>

text \<open>The six built-in comparisons of two \<^verbatim>\<open>BaseT\<close> values.\<close>

record 'b cmp_ops =
  base_eq :: "'b \<Rightarrow> 'b \<Rightarrow> bool"
  base_ne :: "'b \<Rightarrow> 'b \<Rightarrow> bool"
  base_lt :: "'b \<Rightarrow> 'b \<Rightarrow> bool"
  base_gt :: "'b \<Rightarrow> 'b \<Rightarrow> bool"
  base_le :: "'b \<Rightarrow> 'b \<Rightarrow> bool"
  base_ge :: "'b \<Rightarrow> 'b \<Rightarrow> bool"

text \<open>
  \<^verbatim>\<open>friend constexpr bool operator==(const StrongT &lhs, const StrongT &rhs) { return lhs.value == rhs.value; }\<close>
\<close>

definition operator_eq :: "'b cmp_ops \<Rightarrow> 'b StrongType \<Rightarrow> 'b StrongType \<Rightarrow> bool" where
  "operator_eq B lhs rhs = base_eq B (value lhs) (value rhs)"

text \<open>
  \<^verbatim>\<open>friend constexpr bool operator!=(const StrongT &lhs, const StrongT &rhs) { return !(lhs == rhs); }\<close>
\<close>

definition operator_ne :: "'b cmp_ops \<Rightarrow> 'b StrongType \<Rightarrow> 'b StrongType \<Rightarrow> bool" where
  "operator_ne B lhs rhs = (\<not> operator_eq B lhs rhs)"

text \<open>
  \<^verbatim>\<open>friend constexpr bool operator<(const StrongT &lhs, const StrongT &rhs) { return lhs.value < rhs.value; }\<close>
\<close>

definition operator_lt :: "'b cmp_ops \<Rightarrow> 'b StrongType \<Rightarrow> 'b StrongType \<Rightarrow> bool" where
  "operator_lt B lhs rhs = base_lt B (value lhs) (value rhs)"

text \<open>
  \<^verbatim>\<open>friend constexpr bool operator>(const StrongT &lhs, const StrongT &rhs) { return rhs < lhs; }\<close>
\<close>

definition operator_gt :: "'b cmp_ops \<Rightarrow> 'b StrongType \<Rightarrow> 'b StrongType \<Rightarrow> bool" where
  "operator_gt B lhs rhs = operator_lt B rhs lhs"

text \<open>
  \<^verbatim>\<open>friend constexpr bool operator<=(const StrongT &lhs, const StrongT &rhs) { return !(rhs < lhs); }\<close>
\<close>

definition operator_le :: "'b cmp_ops \<Rightarrow> 'b StrongType \<Rightarrow> 'b StrongType \<Rightarrow> bool" where
  "operator_le B lhs rhs = (\<not> operator_lt B rhs lhs)"

text \<open>
  \<^verbatim>\<open>friend constexpr bool operator>=(const StrongT &lhs, const StrongT &rhs) { return !(lhs < rhs); }\<close>
\<close>

definition operator_ge :: "'b cmp_ops \<Rightarrow> 'b StrongType \<Rightarrow> 'b StrongType \<Rightarrow> bool" where
  "operator_ge B lhs rhs = (\<not> operator_lt B lhs rhs)"

subsection \<open>Comparison with a \<^verbatim>\<open>BaseT\<close> rvalue (lines 146-181)\<close>

text \<open>
  \<^verbatim>\<open>friend constexpr bool operator==(const StrongT &lhs, const BaseT &&rhs) { return lhs.value == rhs; }\<close>
  and the five that follow it, with \<^verbatim>\<open>!=\<close>, \<^verbatim>\<open><\<close>, \<^verbatim>\<open>>\<close>, \<^verbatim>\<open><=\<close>, \<^verbatim>\<open>>=\<close> in place
  of \<^verbatim>\<open>==\<close> (lines 146-163).
\<close>

definition operator_eq_StrongT_BaseT :: "'b cmp_ops \<Rightarrow> 'b StrongType \<Rightarrow> 'b \<Rightarrow> bool" where
  "operator_eq_StrongT_BaseT B lhs rhs = base_eq B (value lhs) rhs"

definition operator_ne_StrongT_BaseT :: "'b cmp_ops \<Rightarrow> 'b StrongType \<Rightarrow> 'b \<Rightarrow> bool" where
  "operator_ne_StrongT_BaseT B lhs rhs = base_ne B (value lhs) rhs"

definition operator_lt_StrongT_BaseT :: "'b cmp_ops \<Rightarrow> 'b StrongType \<Rightarrow> 'b \<Rightarrow> bool" where
  "operator_lt_StrongT_BaseT B lhs rhs = base_lt B (value lhs) rhs"

definition operator_gt_StrongT_BaseT :: "'b cmp_ops \<Rightarrow> 'b StrongType \<Rightarrow> 'b \<Rightarrow> bool" where
  "operator_gt_StrongT_BaseT B lhs rhs = base_gt B (value lhs) rhs"

definition operator_le_StrongT_BaseT :: "'b cmp_ops \<Rightarrow> 'b StrongType \<Rightarrow> 'b \<Rightarrow> bool" where
  "operator_le_StrongT_BaseT B lhs rhs = base_le B (value lhs) rhs"

definition operator_ge_StrongT_BaseT :: "'b cmp_ops \<Rightarrow> 'b StrongType \<Rightarrow> 'b \<Rightarrow> bool" where
  "operator_ge_StrongT_BaseT B lhs rhs = base_ge B (value lhs) rhs"

text \<open>
  \<^verbatim>\<open>friend constexpr bool operator==(const BaseT &&lhs, const StrongT &rhs) { return lhs == rhs.value; }\<close>
  and the five that follow it (lines 164-181).
\<close>

definition operator_eq_BaseT_StrongT :: "'b cmp_ops \<Rightarrow> 'b \<Rightarrow> 'b StrongType \<Rightarrow> bool" where
  "operator_eq_BaseT_StrongT B lhs rhs = base_eq B lhs (value rhs)"

definition operator_ne_BaseT_StrongT :: "'b cmp_ops \<Rightarrow> 'b \<Rightarrow> 'b StrongType \<Rightarrow> bool" where
  "operator_ne_BaseT_StrongT B lhs rhs = base_ne B lhs (value rhs)"

definition operator_lt_BaseT_StrongT :: "'b cmp_ops \<Rightarrow> 'b \<Rightarrow> 'b StrongType \<Rightarrow> bool" where
  "operator_lt_BaseT_StrongT B lhs rhs = base_lt B lhs (value rhs)"

definition operator_gt_BaseT_StrongT :: "'b cmp_ops \<Rightarrow> 'b \<Rightarrow> 'b StrongType \<Rightarrow> bool" where
  "operator_gt_BaseT_StrongT B lhs rhs = base_gt B lhs (value rhs)"

definition operator_le_BaseT_StrongT :: "'b cmp_ops \<Rightarrow> 'b \<Rightarrow> 'b StrongType \<Rightarrow> bool" where
  "operator_le_BaseT_StrongT B lhs rhs = base_le B lhs (value rhs)"

definition operator_ge_BaseT_StrongT :: "'b cmp_ops \<Rightarrow> 'b \<Rightarrow> 'b StrongType \<Rightarrow> bool" where
  "operator_ge_BaseT_StrongT B lhs rhs = base_ge B lhs (value rhs)"

subsection \<open>Stream insertion and extraction (lines 184-189)\<close>

text \<open>
  The stream types and the inserter and extractor of \<^verbatim>\<open>BaseT\<close> belong to the
  standard library. They are parameters: \<open>put os v\<close> is the stream after
  \<^verbatim>\<open>os << v\<close>, and \<open>get is v\<close> is the stream and the content of the variable
  after \<^verbatim>\<open>is >> x\<close> for a variable \<^verbatim>\<open>x\<close> that held \<open>v\<close>.

  \<^verbatim>\<open>friend std::ostream &operator<<(std::ostream &os, const StrongT &rhs) { return os << rhs.value; }\<close>
\<close>

definition operator_shl :: "('os \<Rightarrow> 'b \<Rightarrow> 'os) \<Rightarrow> 'os \<Rightarrow> 'b StrongType \<Rightarrow> 'os" where
  "operator_shl put os rhs = put os (value rhs)"

text \<open>
  \<^verbatim>\<open>friend std::istream &operator>>(std::istream &is, StrongT &rhs) { return is >> rhs.value; }\<close>
\<close>

definition operator_shr ::
  "('is \<Rightarrow> 'b \<Rightarrow> 'is \<times> 'b) \<Rightarrow> 'is \<Rightarrow> addr \<Rightarrow> 'b store \<Rightarrow> 'is \<times> 'b store" where
  "operator_shr get is rhs s =
     (case get is (value (s rhs)) of
        (is', v) \<Rightarrow> (is', s(rhs := (s rhs)\<lparr>value := v\<rparr>)))"

section \<open>What the compiler accepts\<close>

subsection \<open>The \<^verbatim>\<open>static_assert\<close> declarations (lines 34-38)\<close>

text \<open>
  The categories of C++ types that the two type traits tell apart. After the C++
  standard: \<^verbatim>\<open>std::is_arithmetic\<close> holds of the integral types (\<^verbatim>\<open>bool\<close> and the
  character types among them) and of the floating-point types; \<^verbatim>\<open>std::is_enum\<close>
  holds of every enumeration type, scoped (\<^verbatim>\<open>enum class\<close>) or unscoped.
\<close>

datatype cpp_type =
  Bool_type | Integer_type | Floating_type | Unscoped_enum | Scoped_enum
  | Pointer_type | Class_type

fun is_arithmetic :: "cpp_type \<Rightarrow> bool" where
  "is_arithmetic Bool_type = True"
| "is_arithmetic Integer_type = True"
| "is_arithmetic Floating_type = True"
| "is_arithmetic _ = False"

fun is_enum :: "cpp_type \<Rightarrow> bool" where
  "is_enum Unscoped_enum = True"
| "is_enum Scoped_enum = True"
| "is_enum _ = False"

text \<open>A \<^verbatim>\<open>static_assert(c, msg)\<close> whose condition is false is an error with that message.\<close>

definition static_assert :: "bool \<Rightarrow> string \<Rightarrow> string list" where
  "static_assert c msg = (if c then [] else [msg])"

text \<open>
  The diagnostics of the two assertions when the template is instantiated with the
  tag type \<open>enumT\<close> and the representation type \<open>BaseT\<close>; the empty list when both
  hold.

  \<^verbatim>\<open>static_assert(std::is_arithmetic<BaseT>::value, "StrongType only available for arithmetic types");\<close>
  \<^verbatim>\<open>static_assert(std::is_enum<enumT>::value, "StrongType must be instantiated with scoped enum (enum class)");\<close>
\<close>

definition StrongType_static_asserts :: "cpp_type \<Rightarrow> cpp_type \<Rightarrow> string list" where
  "StrongType_static_asserts enumT BaseT =
     static_assert (is_arithmetic BaseT) ''StrongType only available for arithmetic types''
     @ static_assert (is_enum enumT)
         ''StrongType must be instantiated with scoped enum (enum class)''"

subsection \<open>The declared operator overloads and the arguments they accept\<close>

text \<open>
  An argument expression is of type \<^verbatim>\<open>StrongT\<close>, or of type \<^verbatim>\<open>BaseT\<close> and then an
  lvalue (a named variable) or an rvalue (a literal or another temporary).
\<close>

datatype value_category = Lvalue | Rvalue

datatype arg = StrongT_arg | BaseT_arg value_category

text \<open>
  The parameter types that occur in the operator declarations: \<^verbatim>\<open>StrongT\<close>,
  \<^verbatim>\<open>const StrongT &\<close>, \<^verbatim>\<open>const BaseT &\<close> and \<^verbatim>\<open>const BaseT &&\<close>.
\<close>

datatype param = StrongT_value | StrongT_const_ref | BaseT_const_ref | BaseT_const_rvalue_ref

text \<open>
  Which argument initialises which parameter. The constructor from \<^verbatim>\<open>BaseT\<close>
  (line 44) and the conversion to \<^verbatim>\<open>BaseT\<close> (line 45) are both \<^verbatim>\<open>explicit\<close>, so no
  implicit conversion leads from one type to the other; an rvalue reference does
  not bind to an lvalue.
\<close>

fun binds :: "param \<Rightarrow> arg \<Rightarrow> bool" where
  "binds StrongT_value StrongT_arg = True"
| "binds StrongT_const_ref StrongT_arg = True"
| "binds BaseT_const_ref (BaseT_arg c) = True"
| "binds BaseT_const_rvalue_ref (BaseT_arg Rvalue) = True"
| "binds p a = False"

datatype binop = Mul | Div | Add | Sub

datatype cmp = Eq | Ne | Lt | Gt | Le | Ge

datatype operator = Arith binop | Cmp cmp

text \<open>
  The non-member functions declared for each binary operator, by their parameter
  types: lines 56, 86 and 89 for \<^verbatim>\<open>*\<close>, 63 and 100 for \<^verbatim>\<open>/\<close>, 70 for \<^verbatim>\<open>+\<close>, 77 for
  \<^verbatim>\<open>-\<close>, and for each comparison the three of lines 125-142, 146-163 and 164-181.
\<close>

fun overloads :: "operator \<Rightarrow> (param \<times> param) list" where
  "overloads (Arith Mul) =
     [(StrongT_value, StrongT_const_ref), (StrongT_value, BaseT_const_ref),
      (BaseT_const_ref, StrongT_value)]"
| "overloads (Arith Div) =
     [(StrongT_value, StrongT_const_ref), (StrongT_value, BaseT_const_ref)]"
| "overloads (Arith Add) = [(StrongT_value, StrongT_const_ref)]"
| "overloads (Arith Sub) = [(StrongT_value, StrongT_const_ref)]"
| "overloads (Cmp c) =
     [(StrongT_const_ref, StrongT_const_ref), (StrongT_const_ref, BaseT_const_rvalue_ref),
      (BaseT_const_rvalue_ref, StrongT_const_ref)]"

text \<open>
  The declared functions that an expression \<^verbatim>\<open>x op y\<close> can call. With an operand of
  type \<^verbatim>\<open>StrongT\<close> no built-in operator is a candidate (it would need the explicit
  conversion), so the expression is ill-formed when this list is empty.
\<close>

definition viable :: "operator \<Rightarrow> arg \<Rightarrow> arg \<Rightarrow> (param \<times> param) list" where
  "viable op x y = filter (\<lambda>(p, q). binds p x \<and> binds q y) (overloads op)"

subsection \<open>Evaluating a comparison expression\<close>

datatype 'b operand = Strong "'b StrongType" | Base value_category 'b

fun arg_of :: "'b operand \<Rightarrow> arg" where
  "arg_of (Strong x) = StrongT_arg"
| "arg_of (Base c k) = BaseT_arg c"

fun base_cmp :: "cmp \<Rightarrow> 'b cmp_ops \<Rightarrow> 'b \<Rightarrow> 'b \<Rightarrow> bool" where
  "base_cmp Eq = base_eq"
| "base_cmp Ne = base_ne"
| "base_cmp Lt = base_lt"
| "base_cmp Gt = base_gt"
| "base_cmp Le = base_le"
| "base_cmp Ge = base_ge"

fun strong_cmp :: "cmp \<Rightarrow> 'b cmp_ops \<Rightarrow> 'b StrongType \<Rightarrow> 'b StrongType \<Rightarrow> bool" where
  "strong_cmp Eq = operator_eq"
| "strong_cmp Ne = operator_ne"
| "strong_cmp Lt = operator_lt"
| "strong_cmp Gt = operator_gt"
| "strong_cmp Le = operator_le"
| "strong_cmp Ge = operator_ge"

fun strong_base_cmp :: "cmp \<Rightarrow> 'b cmp_ops \<Rightarrow> 'b StrongType \<Rightarrow> 'b \<Rightarrow> bool" where
  "strong_base_cmp Eq = operator_eq_StrongT_BaseT"
| "strong_base_cmp Ne = operator_ne_StrongT_BaseT"
| "strong_base_cmp Lt = operator_lt_StrongT_BaseT"
| "strong_base_cmp Gt = operator_gt_StrongT_BaseT"
| "strong_base_cmp Le = operator_le_StrongT_BaseT"
| "strong_base_cmp Ge = operator_ge_StrongT_BaseT"

fun base_strong_cmp :: "cmp \<Rightarrow> 'b cmp_ops \<Rightarrow> 'b \<Rightarrow> 'b StrongType \<Rightarrow> bool" where
  "base_strong_cmp Eq = operator_eq_BaseT_StrongT"
| "base_strong_cmp Ne = operator_ne_BaseT_StrongT"
| "base_strong_cmp Lt = operator_lt_BaseT_StrongT"
| "base_strong_cmp Gt = operator_gt_BaseT_StrongT"
| "base_strong_cmp Le = operator_le_BaseT_StrongT"
| "base_strong_cmp Ge = operator_ge_BaseT_StrongT"

text \<open>The call of the selected overload on the operands.\<close>

fun call_cmp ::
  "'b cmp_ops \<Rightarrow> cmp \<Rightarrow> param \<times> param \<Rightarrow> 'b operand \<Rightarrow> 'b operand \<Rightarrow> bool option" where
  "call_cmp B c (StrongT_const_ref, StrongT_const_ref) (Strong l) (Strong r) =
     Some (strong_cmp c B l r)"
| "call_cmp B c (StrongT_const_ref, BaseT_const_rvalue_ref) (Strong l) (Base k r) =
     Some (strong_base_cmp c B l r)"
| "call_cmp B c (BaseT_const_rvalue_ref, StrongT_const_ref) (Base k l) (Strong r) =
     Some (base_strong_cmp c B l r)"
| "call_cmp B c ov x y = None"

text \<open>
  A comparison expression with an operand of type \<^verbatim>\<open>StrongT\<close>: \<open>None\<close> when it does
  not compile, the value it returns otherwise.
\<close>

definition eval_comparison ::
  "'b cmp_ops \<Rightarrow> cmp \<Rightarrow> 'b operand \<Rightarrow> 'b operand \<Rightarrow> bool option" where
  "eval_comparison B c x y =
     (case viable (Cmp c) (arg_of x) (arg_of y) of
        [ov] \<Rightarrow> call_cmp B c ov x y
      | _ \<Rightarrow> None)"

text \<open>The source function behind each arithmetic operator, for statements about all four.\<close>

fun base_assign :: "binop \<Rightarrow> 'b arith_ops \<Rightarrow> 'b \<Rightarrow> 'b \<Rightarrow> ub + 'b" where
  "base_assign Mul B = base_mul_assign B"
| "base_assign Div B = base_div_assign B"
| "base_assign Add B = base_add_assign B"
| "base_assign Sub B = base_sub_assign B"

fun operator_assign ::
  "binop \<Rightarrow> 'b arith_ops \<Rightarrow> addr \<Rightarrow> addr \<Rightarrow> 'b store \<Rightarrow> ub + addr \<times> 'b store" where
  "operator_assign Mul = operator_mul_assign"
| "operator_assign Div = operator_div_assign"
| "operator_assign Add = operator_add_assign"
| "operator_assign Sub = operator_sub_assign"

fun operator_binary ::
  "binop \<Rightarrow> 'b arith_ops \<Rightarrow> addr \<Rightarrow> addr \<Rightarrow> 'b store \<Rightarrow> ub + 'b StrongType \<times> 'b store" where
  "operator_binary Mul = operator_mul"
| "operator_binary Div = operator_div"
| "operator_binary Add = operator_add"
| "operator_binary Sub = operator_sub"

text \<open>\<^verbatim>\<open>(x op y).value\<close>: the member of the object an operator returns.\<close>

definition result_value :: "ub + 'b StrongType \<times> 'b store \<Rightarrow> ub + 'b" where
  "result_value r = (case r of Inl e \<Rightarrow> Inl e | Inr (x, s) \<Rightarrow> Inr (value x))"

subsection \<open>The comparisons and the insertion on a store\<close>

text \<open>
  The comparison operators and the stream insertion once more, in the
  store-passing form of the mutating members: a \<^verbatim>\<open>const StrongT &\<close> operand is
  the address of an object, every function returns the store it leaves behind, and
  a function that calls another one passes on the store that the callee returns.
  A \<^verbatim>\<open>const BaseT &&\<close> operand refers to a temporary of the primitive type, which
  is no object of the store, and is the value read.

  Lines 125-142, strong value against strong value.
\<close>

definition operator_eq_st :: "'b cmp_ops \<Rightarrow> addr \<Rightarrow> addr \<Rightarrow> 'b store \<Rightarrow> bool \<times> 'b store" where
  "operator_eq_st B lhs rhs s = (base_eq B (value (s lhs)) (value (s rhs)), s)"

definition operator_ne_st :: "'b cmp_ops \<Rightarrow> addr \<Rightarrow> addr \<Rightarrow> 'b store \<Rightarrow> bool \<times> 'b store" where
  "operator_ne_st B lhs rhs s =
     (case operator_eq_st B lhs rhs s of (r, s') \<Rightarrow> (\<not> r, s'))"

definition operator_lt_st :: "'b cmp_ops \<Rightarrow> addr \<Rightarrow> addr \<Rightarrow> 'b store \<Rightarrow> bool \<times> 'b store" where
  "operator_lt_st B lhs rhs s = (base_lt B (value (s lhs)) (value (s rhs)), s)"

definition operator_gt_st :: "'b cmp_ops \<Rightarrow> addr \<Rightarrow> addr \<Rightarrow> 'b store \<Rightarrow> bool \<times> 'b store" where
  "operator_gt_st B lhs rhs s = operator_lt_st B rhs lhs s"

definition operator_le_st :: "'b cmp_ops \<Rightarrow> addr \<Rightarrow> addr \<Rightarrow> 'b store \<Rightarrow> bool \<times> 'b store" where
  "operator_le_st B lhs rhs s =
     (case operator_lt_st B rhs lhs s of (r, s') \<Rightarrow> (\<not> r, s'))"

definition operator_ge_st :: "'b cmp_ops \<Rightarrow> addr \<Rightarrow> addr \<Rightarrow> 'b store \<Rightarrow> bool \<times> 'b store" where
  "operator_ge_st B lhs rhs s =
     (case operator_lt_st B lhs rhs s of (r, s') \<Rightarrow> (\<not> r, s'))"

text \<open>Lines 146-163, strong value against a \<^verbatim>\<open>BaseT\<close> rvalue.\<close>

definition operator_eq_StrongT_BaseT_st ::
  "'b cmp_ops \<Rightarrow> addr \<Rightarrow> 'b \<Rightarrow> 'b store \<Rightarrow> bool \<times> 'b store" where
  "operator_eq_StrongT_BaseT_st B lhs rhs s = (base_eq B (value (s lhs)) rhs, s)"

definition operator_ne_StrongT_BaseT_st ::
  "'b cmp_ops \<Rightarrow> addr \<Rightarrow> 'b \<Rightarrow> 'b store \<Rightarrow> bool \<times> 'b store" where
  "operator_ne_StrongT_BaseT_st B lhs rhs s = (base_ne B (value (s lhs)) rhs, s)"

definition operator_lt_StrongT_BaseT_st ::
  "'b cmp_ops \<Rightarrow> addr \<Rightarrow> 'b \<Rightarrow> 'b store \<Rightarrow> bool \<times> 'b store" where
  "operator_lt_StrongT_BaseT_st B lhs rhs s = (base_lt B (value (s lhs)) rhs, s)"

definition operator_gt_StrongT_BaseT_st ::
  "'b cmp_ops \<Rightarrow> addr \<Rightarrow> 'b \<Rightarrow> 'b store \<Rightarrow> bool \<times> 'b store" where
  "operator_gt_StrongT_BaseT_st B lhs rhs s = (base_gt B (value (s lhs)) rhs, s)"

definition operator_le_StrongT_BaseT_st ::
  "'b cmp_ops \<Rightarrow> addr \<Rightarrow> 'b \<Rightarrow> 'b store \<Rightarrow> bool \<times> 'b store" where
  "operator_le_StrongT_BaseT_st B lhs rhs s = (base_le B (value (s lhs)) rhs, s)"

definition operator_ge_StrongT_BaseT_st ::
  "'b cmp_ops \<Rightarrow> addr \<Rightarrow> 'b \<Rightarrow> 'b store \<Rightarrow> bool \<times> 'b store" where
  "operator_ge_StrongT_BaseT_st B lhs rhs s = (base_ge B (value (s lhs)) rhs, s)"

text \<open>Lines 164-181, a \<^verbatim>\<open>BaseT\<close> rvalue against a strong value.\<close>

definition operator_eq_BaseT_StrongT_st ::
  "'b cmp_ops \<Rightarrow> 'b \<Rightarrow> addr \<Rightarrow> 'b store \<Rightarrow> bool \<times> 'b store" where
  "operator_eq_BaseT_StrongT_st B lhs rhs s = (base_eq B lhs (value (s rhs)), s)"

definition operator_ne_BaseT_StrongT_st ::
  "'b cmp_ops \<Rightarrow> 'b \<Rightarrow> addr \<Rightarrow> 'b store \<Rightarrow> bool \<times> 'b store" where
  "operator_ne_BaseT_StrongT_st B lhs rhs s = (base_ne B lhs (value (s rhs)), s)"

definition operator_lt_BaseT_StrongT_st ::
  "'b cmp_ops \<Rightarrow> 'b \<Rightarrow> addr \<Rightarrow> 'b store \<Rightarrow> bool \<times> 'b store" where
  "operator_lt_BaseT_StrongT_st B lhs rhs s = (base_lt B lhs (value (s rhs)), s)"

definition operator_gt_BaseT_StrongT_st ::
  "'b cmp_ops \<Rightarrow> 'b \<Rightarrow> addr \<Rightarrow> 'b store \<Rightarrow> bool \<times> 'b store" where
  "operator_gt_BaseT_StrongT_st B lhs rhs s = (base_gt B lhs (value (s rhs)), s)"

definition operator_le_BaseT_StrongT_st ::
  "'b cmp_ops \<Rightarrow> 'b \<Rightarrow> addr \<Rightarrow> 'b store \<Rightarrow> bool \<times> 'b store" where
  "operator_le_BaseT_StrongT_st B lhs rhs s = (base_le B lhs (value (s rhs)), s)"

definition operator_ge_BaseT_StrongT_st ::
  "'b cmp_ops \<Rightarrow> 'b \<Rightarrow> addr \<Rightarrow> 'b store \<Rightarrow> bool \<times> 'b store" where
  "operator_ge_BaseT_StrongT_st B lhs rhs s = (base_ge B lhs (value (s rhs)), s)"

text \<open>The function behind each comparison operator, for statements about all six.\<close>

fun strong_cmp_st ::
  "cmp \<Rightarrow> 'b cmp_ops \<Rightarrow> addr \<Rightarrow> addr \<Rightarrow> 'b store \<Rightarrow> bool \<times> 'b store" where
  "strong_cmp_st Eq = operator_eq_st"
| "strong_cmp_st Ne = operator_ne_st"
| "strong_cmp_st Lt = operator_lt_st"
| "strong_cmp_st Gt = operator_gt_st"
| "strong_cmp_st Le = operator_le_st"
| "strong_cmp_st Ge = operator_ge_st"

fun strong_base_cmp_st ::
  "cmp \<Rightarrow> 'b cmp_ops \<Rightarrow> addr \<Rightarrow> 'b \<Rightarrow> 'b store \<Rightarrow> bool \<times> 'b store" where
  "strong_base_cmp_st Eq = operator_eq_StrongT_BaseT_st"
| "strong_base_cmp_st Ne = operator_ne_StrongT_BaseT_st"
| "strong_base_cmp_st Lt = operator_lt_StrongT_BaseT_st"
| "strong_base_cmp_st Gt = operator_gt_StrongT_BaseT_st"
| "strong_base_cmp_st Le = operator_le_StrongT_BaseT_st"
| "strong_base_cmp_st Ge = operator_ge_StrongT_BaseT_st"

fun base_strong_cmp_st ::
  "cmp \<Rightarrow> 'b cmp_ops \<Rightarrow> 'b \<Rightarrow> addr \<Rightarrow> 'b store \<Rightarrow> bool \<times> 'b store" where
  "base_strong_cmp_st Eq = operator_eq_BaseT_StrongT_st"
| "base_strong_cmp_st Ne = operator_ne_BaseT_StrongT_st"
| "base_strong_cmp_st Lt = operator_lt_BaseT_StrongT_st"
| "base_strong_cmp_st Gt = operator_gt_BaseT_StrongT_st"
| "base_strong_cmp_st Le = operator_le_BaseT_StrongT_st"
| "base_strong_cmp_st Ge = operator_ge_BaseT_StrongT_st"

text \<open>
  Line 184, \<^verbatim>\<open>return os << rhs.value;\<close>: the stream after the insertion, and the
  store.
\<close>

definition operator_shl_st ::
  "('os \<Rightarrow> 'b \<Rightarrow> 'os) \<Rightarrow> 'os \<Rightarrow> addr \<Rightarrow> 'b store \<Rightarrow> 'os \<times> 'b store" where
  "operator_shl_st put os rhs s = (put os (value (s rhs)), s)"

section \<open>The representation types\<close>

subsection \<open>Integer types\<close>

text \<open>
  The built-in integer arithmetic of C++, for a representation type given by its
  signedness and its width in bits; a value of the type is the mathematical
  integer it denotes. \<^verbatim>\<open>int\<close> has 32 bits, as on the common data models, and
  signed types are two's complement. \<^verbatim>\<open>bool\<close> is left out.
\<close>

record int_type =
  is_signed :: bool
  width :: nat

definition int_width :: nat where
  "int_width = 32"

definition valid_type :: "int_type \<Rightarrow> bool" where
  "valid_type T = (width T = 8 \<or> width T = 16 \<or> width T = 32 \<or> width T = 64)"

definition int_min :: "int_type \<Rightarrow> int" where
  "int_min T = (if is_signed T then - (2 ^ (width T - 1)) else 0)"

definition int_max :: "int_type \<Rightarrow> int" where
  "int_max T = (if is_signed T then 2 ^ (width T - 1) - 1 else 2 ^ width T - 1)"

definition in_range :: "int_type \<Rightarrow> int \<Rightarrow> bool" where
  "in_range T v = (int_min T \<le> v \<and> v \<le> int_max T)"

text \<open>
  Integral promotion: an operand of a type narrower than \<^verbatim>\<open>int\<close> becomes an
  \<^verbatim>\<open>int\<close> of the same value. Both operands of every operation here are of type
  \<^verbatim>\<open>BaseT\<close>, so the promoted type is the type the operation is carried out in.
\<close>

definition promote :: "int_type \<Rightarrow> int_type" where
  "promote T = (if width T < int_width then \<lparr>is_signed = True, width = int_width\<rparr> else T)"

text \<open>
  Conversion to an integer type: the value of the destination type congruent to the
  source modulo \<open>2 ^ width\<close>.
\<close>

definition convert :: "int_type \<Rightarrow> int \<Rightarrow> int" where
  "convert T v =
     (if is_signed T
      then (v + 2 ^ (width T - 1)) mod 2 ^ width T - 2 ^ (width T - 1)
      else v mod 2 ^ width T)"

text \<open>
  The result of an operation carried out in the type \<open>P\<close>, from the mathematical
  result \<open>r\<close>: unsigned arithmetic is modulo \<open>2 ^ width\<close>, a signed result that is
  not representable is undefined behaviour.
\<close>

definition arith_result :: "int_type \<Rightarrow> int \<Rightarrow> ub + int" where
  "arith_result P r =
     (if is_signed P
      then (if in_range P r then Inr r else Inl SignedOverflow)
      else Inr (r mod 2 ^ width P))"

text \<open>Integer division truncates towards zero.\<close>

definition trunc_div :: "int \<Rightarrow> int \<Rightarrow> int" where
  "trunc_div a b = sgn a * sgn b * (\<bar>a\<bar> div \<bar>b\<bar>)"

text \<open>
  The expression \<^verbatim>\<open>a op b\<close> for two operands of type \<open>T\<close>; its type is
  \<open>promote T\<close>.
\<close>

fun cpp_binop :: "binop \<Rightarrow> int_type \<Rightarrow> int \<Rightarrow> int \<Rightarrow> ub + int" where
  "cpp_binop Mul T a b = arith_result (promote T) (a * b)"
| "cpp_binop Div T a b =
     (if b = 0 then Inl DivisionByZero else arith_result (promote T) (trunc_div a b))"
| "cpp_binop Add T a b = arith_result (promote T) (a + b)"
| "cpp_binop Sub T a b = arith_result (promote T) (a - b)"

text \<open>
  The compound assignment \<^verbatim>\<open>x op= b\<close> on a variable of type \<open>T\<close> that holds \<open>a\<close>
  is \<^verbatim>\<open>x = x op b\<close>: the result of \<^verbatim>\<open>a op b\<close>, converted to \<open>T\<close>, is stored.
\<close>

definition cpp_assign :: "binop \<Rightarrow> int_type \<Rightarrow> int \<Rightarrow> int \<Rightarrow> ub + int" where
  "cpp_assign op T a b =
     (case cpp_binop op T a b of
        Inl e \<Rightarrow> Inl e
      | Inr r \<Rightarrow> Inr (convert T r))"

text \<open>\<^verbatim>\<open>++x\<close> is \<^verbatim>\<open>x += 1\<close> and \<^verbatim>\<open>--x\<close> is \<^verbatim>\<open>x -= 1\<close>.\<close>

definition int_arith :: "int_type \<Rightarrow> int arith_ops" where
  "int_arith T =
     \<lparr>base_mul_assign = cpp_assign Mul T,
      base_div_assign = cpp_assign Div T,
      base_add_assign = cpp_assign Add T,
      base_sub_assign = cpp_assign Sub T,
      base_pre_inc = (\<lambda>v. cpp_assign Add T v 1),
      base_pre_dec = (\<lambda>v. cpp_assign Sub T v 1)\<rparr>"

text \<open>
  Comparing two values of one integer type compares the integers they denote
  (promotion keeps the value).
\<close>

definition int_cmp :: "int cmp_ops" where
  "int_cmp =
     \<lparr>base_eq = (\<lambda>a b. a = b),
      base_ne = (\<lambda>a b. a \<noteq> b),
      base_lt = (\<lambda>a b. a < b),
      base_gt = (\<lambda>a b. a > b),
      base_le = (\<lambda>a b. a \<le> b),
      base_ge = (\<lambda>a b. a \<ge> b)\<rparr>"

definition uint8 :: int_type where
  "uint8 = \<lparr>is_signed = False, width = 8\<rparr>"

definition int32 :: int_type where
  "int32 = \<lparr>is_signed = True, width = 32\<rparr>"

subsection \<open>The comparisons of \<^verbatim>\<open>double\<close>\<close>

text \<open>
  A \<^verbatim>\<open>double\<close> is its 64 bits in the IEEE 754 binary64 format: bit 63 is the sign,
  bits 52 to 62 the exponent, bits 0 to 51 the fraction. Only the comparisons are
  modelled. A NaN (exponent all ones, fraction not zero) is unordered with every
  value, itself included: \<^verbatim>\<open>!=\<close> is then true and the other five are false. Other
  values compare as their sign and magnitude do, so the two zeros are equal.
\<close>

type_synonym double = "64 word"

definition is_nan :: "double \<Rightarrow> bool" where
  "is_nan w = (drop_bit 52 w AND 0x7FF = 0x7FF \<and> take_bit 52 w \<noteq> 0)"

definition double_key :: "double \<Rightarrow> int" where
  "double_key w = (if bit w 63 then - uint (take_bit 63 w) else uint (take_bit 63 w))"

definition double_lt :: "double \<Rightarrow> double \<Rightarrow> bool" where
  "double_lt a b = (\<not> is_nan a \<and> \<not> is_nan b \<and> double_key a < double_key b)"

definition double_eq :: "double \<Rightarrow> double \<Rightarrow> bool" where
  "double_eq a b = (\<not> is_nan a \<and> \<not> is_nan b \<and> double_key a = double_key b)"

definition double_cmp :: "double cmp_ops" where
  "double_cmp =
     \<lparr>base_eq = double_eq,
      base_ne = (\<lambda>a b. \<not> double_eq a b),
      base_lt = double_lt,
      base_gt = (\<lambda>a b. double_lt b a),
      base_le = (\<lambda>a b. double_lt a b \<or> double_eq a b),
      base_ge = (\<lambda>a b. double_lt b a \<or> double_eq a b)\<rparr>"

text \<open>The quiet NaN \<open>0x7FF8000000000000\<close> and the numbers \<open>1.0\<close> and \<open>2.0\<close>.\<close>

definition quiet_NaN :: double where
  "quiet_NaN = 0x7FF8000000000000"

definition double_one :: double where
  "double_one = 0x3FF0000000000000"

definition double_two :: double where
  "double_two = 0x4000000000000000"

subsection \<open>The text of an \<^verbatim>\<open>int\<close> on a stream\<close>

text \<open>
  The inserter and the extractor of \<^verbatim>\<open>int\<close> in the default format state (decimal,
  no field width, leading white space skipped, classic locale), after the C++
  standard library. An output stream is the text written to it.
\<close>

type_synonym ostream = string

fun show_nat :: "nat \<Rightarrow> string" where
  "show_nat n =
     (if n < 10 then [''0123456789'' ! n]
      else show_nat (n div 10) @ [''0123456789'' ! (n mod 10)])"

definition put_int :: "ostream \<Rightarrow> int \<Rightarrow> ostream" where
  "put_int os v = os @ (if v < 0 then CHR ''-'' # show_nat (nat (- v)) else show_nat (nat v))"

text \<open>
  An input stream is the text not yet read and two of its state bits. An
  extraction from a stream that is not good only sets \<^verbatim>\<open>failbit\<close>. When white
  space runs to the end of the input, \<^verbatim>\<open>eofbit\<close> and \<^verbatim>\<open>failbit\<close> are set and the
  variable keeps its content. When no digit follows the optional sign, zero is stored
  and \<^verbatim>\<open>failbit\<close> set; a number out of range stores the nearest bound and sets
  \<^verbatim>\<open>failbit\<close>. Reading up to the end of the input sets \<^verbatim>\<open>eofbit\<close>.
\<close>

record istream =
  buf :: string
  failbit :: bool
  eofbit :: bool

definition is_space :: "char \<Rightarrow> bool" where
  "is_space c = (c \<in> set [CHR '' '', CHR 0x09, CHR 0x0A, CHR 0x0B, CHR 0x0C, CHR 0x0D])"

definition is_digit :: "char \<Rightarrow> bool" where
  "is_digit c = (48 \<le> (of_char c :: nat) \<and> (of_char c :: nat) \<le> 57)"

definition read_digits :: "string \<Rightarrow> int" where
  "read_digits ds = foldl (\<lambda>n c. 10 * n + (of_char c - 48)) 0 ds"

definition get_int :: "istream \<Rightarrow> int \<Rightarrow> istream \<times> int" where
  "get_int is v =
     (if failbit is \<or> eofbit is then (is\<lparr>failbit := True\<rparr>, v)
      else
        let r0 = dropWhile is_space (buf is) in
        if r0 = [] then (is\<lparr>buf := [], failbit := True, eofbit := True\<rparr>, v)
        else
          let neg = (hd r0 = CHR ''-'');
              r1 = (if hd r0 = CHR ''-'' \<or> hd r0 = CHR ''+'' then tl r0 else r0);
              ds = takeWhile is_digit r1;
              r2 = dropWhile is_digit r1;
              n = (if neg then - read_digits ds else read_digits ds)
          in
            if ds = [] then (is\<lparr>buf := r1, failbit := True, eofbit := (r1 = [])\<rparr>, 0)
            else if n < int_min int32
              then (is\<lparr>buf := r2, failbit := True, eofbit := (r2 = [])\<rparr>, int_min int32)
            else if int_max int32 < n
              then (is\<lparr>buf := r2, failbit := True, eofbit := (r2 = [])\<rparr>, int_max int32)
            else (is\<lparr>buf := r2, eofbit := (r2 = [])\<rparr>, n))"

subsection \<open>Stores for the examples\<close>

text \<open>The object at address 0 holds \<open>x\<close>, every other object holds \<open>y\<close>.\<close>

definition two_objects :: "'b \<Rightarrow> 'b \<Rightarrow> 'b store" where
  "two_objects x y = (\<lambda>a. \<lparr>value = (if a = 0 then x else y)\<rparr>)"

section \<open>Properties\<close>

subsection \<open>Auxiliary facts\<close>

lemma value_update_eq [simp]: "(x :: 'b StrongType)\<lparr>value := v\<rparr> = \<lparr>value = v\<rparr>"
  by (cases x) simp

lemma operator_assign_eq:
  "operator_assign op B this rhs s =
     assign_value this (base_assign op B (value (s this)) (value (s rhs))) s"
  by (cases op)
     (simp_all add: operator_mul_assign_def operator_div_assign_def
        operator_add_assign_def operator_sub_assign_def)

lemma operator_binary_eq:
  "operator_binary op B lhs rhs s = return_copy (operator_assign op B lhs rhs s)"
  by (cases op)
     (simp_all add: operator_mul_def operator_div_def operator_add_def operator_sub_def)

lemma base_assign_int: "base_assign op (int_arith T) = cpp_assign op T"
  by (cases op) (simp_all add: int_arith_def)

text \<open>A value of the type is left as it is by the conversion to the type.\<close>

lemma convert_id: "valid_type T \<Longrightarrow> in_range T v \<Longrightarrow> convert T v = v"
  unfolding valid_type_def in_range_def convert_def int_min_def int_max_def
  by auto

lemma arith_result_in_range:
  "valid_type P \<Longrightarrow> arith_result P r = Inr v \<Longrightarrow> in_range P v"
  unfolding arith_result_def in_range_def int_min_def int_max_def valid_type_def
  by (auto split: if_splits)

lemma promote_wide: "int_width \<le> width T \<Longrightarrow> promote T = T"
  by (simp add: promote_def)

lemma cpp_binop_in_range:
  "valid_type T \<Longrightarrow> int_width \<le> width T \<Longrightarrow> cpp_binop op T x y = Inr r \<Longrightarrow> in_range T r"
  by (cases op) (auto simp: promote_wide split: if_splits dest: arith_result_in_range)

text \<open>
  For a type that is not promoted, the compound assignment stores the very result
  of the binary expression, and is undefined exactly when that is.
\<close>

lemma cpp_assign_wide:
  assumes "valid_type T" and "int_width \<le> width T"
  shows "cpp_assign op T x y = cpp_binop op T x y"
proof (cases "cpp_binop op T x y")
  case (Inl e)
  then show ?thesis by (simp add: cpp_assign_def)
next
  case (Inr r)
  with assms have "convert T r = r"
    by (blast intro: convert_id cpp_binop_in_range)
  with Inr show ?thesis by (simp add: cpp_assign_def)
qed

lemmas int_eval = cpp_assign_def promote_def int_width_def arith_result_def in_range_def
  int_min_def int_max_def convert_def trunc_div_def valid_type_def

lemmas strong_cmp_defs = operator_eq_def operator_ne_def operator_lt_def operator_gt_def
  operator_le_def operator_ge_def

lemmas mixed_cmp_defs =
  operator_eq_StrongT_BaseT_def operator_ne_StrongT_BaseT_def operator_lt_StrongT_BaseT_def
  operator_gt_StrongT_BaseT_def operator_le_StrongT_BaseT_def operator_ge_StrongT_BaseT_def
  operator_eq_BaseT_StrongT_def operator_ne_BaseT_StrongT_def operator_lt_BaseT_StrongT_def
  operator_gt_BaseT_StrongT_def operator_le_BaseT_StrongT_def operator_ge_BaseT_StrongT_def

lemma pre_inc_result:
  "operator_pre_inc B this s =
     (case base_pre_inc B (value (s this)) of
        Inl e \<Rightarrow> Inl e
      | Inr v \<Rightarrow> Inr (this, s(this := \<lparr>value = v\<rparr>)))"
  by (simp add: operator_pre_inc_def assign_value_def split: sum.splits)

lemma pre_dec_result:
  "operator_pre_dec B this s =
     (case base_pre_dec B (value (s this)) of
        Inl e \<Rightarrow> Inl e
      | Inr v \<Rightarrow> Inr (this, s(this := \<lparr>value = v\<rparr>)))"
  by (simp add: operator_pre_dec_def assign_value_def split: sum.splits)

lemma post_inc_result:
  "operator_post_inc B this s =
     (case base_pre_inc B (value (s this)) of
        Inl e \<Rightarrow> Inl e
      | Inr v \<Rightarrow> Inr (s this, s(this := \<lparr>value = v\<rparr>)))"
  by (simp add: operator_post_inc_def pre_inc_result split: sum.splits)

lemma post_dec_result:
  "operator_post_dec B this s =
     (case base_pre_dec B (value (s this)) of
        Inl e \<Rightarrow> Inl e
      | Inr v \<Rightarrow> Inr (s this, s(this := \<lparr>value = v\<rparr>)))"
  by (simp add: operator_post_dec_def pre_dec_result split: sum.splits)

subsection \<open>Round trip\<close>

text \<open>
  C4 (round trip). For every representation value \<open>v\<close>, of any representation type
  (the statement is polymorphic in \<open>'b\<close>, so \<open>v\<close> may be a mathematical integer or
  the 64 bits of a double), a strong value constructed from \<open>v\<close> gives back exactly
  \<open>v\<close> through the explicit cast and through the read-only accessor; a construction
  into the store followed by a read through the reference that the mutable accessor
  returns gives \<open>v\<close> as well.
\<close>

theorem round_trip:
  "operator_BaseT (StrongType_ctor v) = v
   \<and> as_base_const (StrongType_ctor v) = v
   \<and> read_ref (s(a := StrongType_ctor v)) (as_base a) = v"
  by (simp add: operator_BaseT_def as_base_const_def as_base_def StrongType_ctor_def)

text \<open>
  An assignment through the reference that the mutable accessor returns is an
  assignment to the member of that object, and to nothing else.
\<close>

lemma as_base_assign:
  "operator_BaseT (write_ref s (as_base a) v a) = v
   \<and> (x \<noteq> a \<longrightarrow> write_ref s (as_base a) v x = s x)"
  by (simp add: operator_BaseT_def as_base_def)

subsection \<open>Arithmetic between strong values\<close>

lemma binary_result:
  "p \<noteq> b \<Longrightarrow>
   result_value (operator_binary op B p b (copy_init p a s)) =
     base_assign op B (value (s a)) (value (s b))"
  by (simp add: operator_binary_eq operator_assign_eq copy_init_def assign_value_def
        return_copy_def result_value_def split: sum.splits)

lemma assign_result:
  "operator_assign op B a b s =
     (case base_assign op B (value (s a)) (value (s b)) of
        Inl e \<Rightarrow> Inl e
      | Inr v \<Rightarrow> Inr (a, s(a := \<lparr>value = v\<rparr>)))"
  by (simp add: operator_assign_eq assign_value_def split: sum.splits)

text \<open>
  C1 (arithmetic homomorphism), as amended. Let \<open>op\<close> be one of \<^verbatim>\<open>*\<close>, \<^verbatim>\<open>/\<close>, \<^verbatim>\<open>+\<close>,
  \<^verbatim>\<open>-\<close>, and let the objects at \<open>a\<close> and \<open>b\<close> hold the raw values of the operands;
  \<open>p\<close> is the parameter object that receives the copy of the left operand.
  For every representation type, \<^verbatim>\<open>(a op b).value\<close> is what the primitive's
  compound assignment \<^verbatim>\<open>op=\<close> leaves in a variable that held \<^verbatim>\<open>a.value\<close>, and
  \<^verbatim>\<open>a op= b\<close> writes that same value into \<open>a\<close> in place and returns a reference to
  \<open>a\<close>; both are undefined exactly when the primitive's operation is. For an integer
  representation type that value is \<^verbatim>\<open>a.value op b.value\<close> converted back to the
  representation type, and for an integer type at least as wide as \<^verbatim>\<open>int\<close> it is
  \<^verbatim>\<open>a.value op b.value\<close> itself, overflow and division by zero included.
\<close>

theorem arithmetic_homomorphism:
  assumes "valid_type T" and "p \<noteq> b"
  shows
    "result_value (operator_binary op B p b (copy_init p a s)) =
       base_assign op B (value (s a)) (value (s b))
     \<and> operator_assign op B a b s =
       (case base_assign op B (value (s a)) (value (s b)) of
          Inl e \<Rightarrow> Inl e
        | Inr v \<Rightarrow> Inr (a, s(a := \<lparr>value = v\<rparr>)))
     \<and> base_assign op (int_arith T) x y =
       (case cpp_binop op T x y of
          Inl e \<Rightarrow> Inl e
        | Inr r \<Rightarrow> Inr (convert T r))
     \<and> (int_width \<le> width T \<longrightarrow> base_assign op (int_arith T) x y = cpp_binop op T x y)"
  using assms
  by (simp add: binary_result assign_result base_assign_int cpp_assign_wide)
     (simp add: cpp_assign_def)

text \<open>On \<^verbatim>\<open>int\<close>: \<open>6 * 7\<close> and \<open>6 *= 7\<close>, with the parameter object at address 2.\<close>

theorem arithmetic_homomorphism_witness:
  "valid_type int32 \<and> (2::addr) \<noteq> 1 \<and> int_width \<le> width int32
   \<and> result_value (operator_binary Mul (int_arith int32) 2 1 (copy_init 2 0 (two_objects 6 7))) =
       Inr 42
   \<and> operator_assign Mul (int_arith int32) 0 1 (two_objects 6 7) =
       Inr (0, (two_objects 6 7)(0 := \<lparr>value = 42\<rparr>))
   \<and> base_assign Mul (int_arith int32) 6 7 = Inr 42
   \<and> cpp_binop Mul int32 6 7 = Inr 42"
  using arithmetic_homomorphism [of int32 2 1 Mul "int_arith int32" 0 "two_objects 6 7" 6 7]
  by (simp add: int_eval int32_def two_objects_def int_arith_def)

text \<open>
  With \<^verbatim>\<open>unsigned char\<close> as the representation type, \<open>a\<close> holding 200 and \<open>b\<close>
  holding 100: \<^verbatim>\<open>(a + b).value\<close> is 44, while the expression
  \<^verbatim>\<open>a.value + b.value\<close>, computed in \<^verbatim>\<open>int\<close>, is 300.
\<close>

theorem arithmetic_homomorphism_counterexample:
  "result_value (operator_add (int_arith uint8) 2 1 (copy_init 2 0 (two_objects 200 100))) = Inr 44
   \<and> cpp_binop Add uint8 (value (two_objects 200 100 0)) (value (two_objects 200 100 1)) = Inr 300
   \<and> result_value (operator_add (int_arith uint8) 2 1 (copy_init 2 0 (two_objects 200 100)))
       \<noteq> cpp_binop Add uint8 (value (two_objects 200 100 0)) (value (two_objects 200 100 1))"
  by (simp add: result_value_def operator_add_def operator_add_assign_def return_copy_def
        assign_value_def copy_init_def int_arith_def two_objects_def uint8_def int_eval)

subsection \<open>Scaling\<close>

lemma scalar_result:
  "result_value (operator_mul_StrongT_BaseT B p k (copy_init p a s)) =
     base_mul_assign B (value (s a)) k
   \<and> result_value (operator_mul_BaseT_StrongT B k p (copy_init p a s)) =
     base_mul_assign B (value (s a)) k
   \<and> result_value (operator_div_StrongT_BaseT B p k (copy_init p a s)) =
     base_div_assign B (value (s a)) k"
  by (simp add: operator_mul_StrongT_BaseT_def operator_mul_BaseT_StrongT_def
        operator_div_StrongT_BaseT_def operator_mul_assign_BaseT_def
        operator_div_assign_BaseT_def copy_init_def assign_value_def return_copy_def
        result_value_def split: sum.splits)

lemma no_base_div_strong: "viable (Arith Div) (BaseT_arg c) StrongT_arg = []"
  by (simp add: viable_def)

text \<open>
  C5 (scalar scaling), as amended. For a strong value copied from the object at \<open>a\<close>
  and a raw scalar \<open>k\<close>, of every representation type: \<^verbatim>\<open>(a * k).value\<close> and
  \<^verbatim>\<open>(k * a).value\<close> are both what the primitive's \<^verbatim>\<open>*=\<close> leaves in a variable that held
  \<^verbatim>\<open>a.value\<close> when given \<open>k\<close>, and \<^verbatim>\<open>(a / k).value\<close> is what \<^verbatim>\<open>/=\<close> leaves. For an
  integer representation type these are \<^verbatim>\<open>a.value * k\<close> and \<^verbatim>\<open>a.value / k\<close>
  converted back to the representation type, and for an integer type at least as
  wide as \<^verbatim>\<open>int\<close> they are \<^verbatim>\<open>a.value * k\<close> and \<^verbatim>\<open>a.value / k\<close> themselves. No
  declared function accepts a \<^verbatim>\<open>BaseT\<close> on the left of \<^verbatim>\<open>/\<close> and a strong value on
  the right.
\<close>

theorem scalar_scaling:
  assumes "valid_type T"
  shows
    "result_value (operator_mul_StrongT_BaseT B p k (copy_init p a s)) =
       base_mul_assign B (value (s a)) k
     \<and> result_value (operator_mul_BaseT_StrongT B k p (copy_init p a s)) =
       base_mul_assign B (value (s a)) k
     \<and> result_value (operator_div_StrongT_BaseT B p k (copy_init p a s)) =
       base_div_assign B (value (s a)) k
     \<and> base_mul_assign (int_arith T) x y =
       (case cpp_binop Mul T x y of Inl e \<Rightarrow> Inl e | Inr r \<Rightarrow> Inr (convert T r))
     \<and> base_div_assign (int_arith T) x y =
       (case cpp_binop Div T x y of Inl e \<Rightarrow> Inl e | Inr r \<Rightarrow> Inr (convert T r))
     \<and> (int_width \<le> width T \<longrightarrow>
          base_mul_assign (int_arith T) x y = cpp_binop Mul T x y
          \<and> base_div_assign (int_arith T) x y = cpp_binop Div T x y)
     \<and> viable (Arith Div) (BaseT_arg c) StrongT_arg = []"
proof -
  have "base_mul_assign (int_arith T) = cpp_assign Mul T"
    and "base_div_assign (int_arith T) = cpp_assign Div T"
    by (simp_all add: int_arith_def)
  with assms show ?thesis
    by (simp add: scalar_result no_base_div_strong cpp_assign_wide) (simp add: cpp_assign_def)
qed

text \<open>On \<^verbatim>\<open>int\<close>: \<open>14 * 3\<close>, \<open>3 * 14\<close> and \<open>14 / 3\<close>.\<close>

theorem scalar_scaling_witness:
  "valid_type int32 \<and> int_width \<le> width int32
   \<and> result_value (operator_mul_StrongT_BaseT (int_arith int32) 1 3 (copy_init 1 0 (two_objects 14 0)))
       = Inr 42
   \<and> result_value (operator_mul_BaseT_StrongT (int_arith int32) 3 1 (copy_init 1 0 (two_objects 14 0)))
       = Inr 42
   \<and> result_value (operator_div_StrongT_BaseT (int_arith int32) 1 3 (copy_init 1 0 (two_objects 14 0)))
       = Inr 4
   \<and> base_mul_assign (int_arith int32) 14 3 = Inr 42
   \<and> base_div_assign (int_arith int32) 14 3 = Inr 4
   \<and> cpp_binop Mul int32 14 3 = Inr 42 \<and> cpp_binop Div int32 14 3 = Inr 4"
  using scalar_scaling [of int32 "int_arith int32" 1 3 0 "two_objects 14 0" 14 3 Lvalue]
  by (simp add: int_eval int32_def two_objects_def int_arith_def)

text \<open>
  With \<^verbatim>\<open>unsigned char\<close> as the representation type, \<open>a\<close> holding 200 and \<open>k = 2\<close>:
  \<^verbatim>\<open>(a * k).value\<close> is 144, while \<^verbatim>\<open>a.value * k\<close>, computed in \<^verbatim>\<open>int\<close>, is 400.
\<close>

theorem scalar_scaling_counterexample:
  "result_value (operator_mul_StrongT_BaseT (int_arith uint8) 1 2 (copy_init 1 0 (two_objects 200 0)))
     = Inr 144
   \<and> cpp_binop Mul uint8 (value (two_objects 200 0 0)) 2 = Inr 400
   \<and> result_value
        (operator_mul_StrongT_BaseT (int_arith uint8) 1 2 (copy_init 1 0 (two_objects 200 0)))
       \<noteq> cpp_binop Mul uint8 (value (two_objects 200 0 0)) 2"
  by (simp add: result_value_def operator_mul_StrongT_BaseT_def operator_mul_assign_BaseT_def
        return_copy_def assign_value_def copy_init_def int_arith_def two_objects_def uint8_def
        int_eval)

subsection \<open>Increment and decrement\<close>

lemma int_pre_inc:
  assumes "valid_type T" and "in_range T x" and "x < int_max T"
  shows "base_pre_inc (int_arith T) x = Inr (x + 1)"
proof -
  from assms have r: "in_range T (x + 1)"
    by (simp add: in_range_def)
  have "cpp_binop Add T x 1 = Inr (x + 1)"
  proof (cases "width T < int_width")
    case True
    with assms(1) r have "in_range \<lparr>is_signed = True, width = int_width\<rparr> (x + 1)"
      unfolding valid_type_def in_range_def int_min_def int_max_def int_width_def
      by (auto split: if_splits)
    with True show ?thesis by (simp add: promote_def arith_result_def)
  next
    case False
    with assms(1) r show ?thesis
      unfolding valid_type_def in_range_def int_min_def int_max_def
      by (auto simp: promote_def arith_result_def in_range_def int_min_def int_max_def
            split: if_splits)
  qed
  with assms(1) r show ?thesis
    by (simp add: int_arith_def cpp_assign_def convert_id)
qed

lemma int_pre_dec:
  assumes "valid_type T" and "in_range T x" and "int_min T < x"
  shows "base_pre_dec (int_arith T) x = Inr (x - 1)"
proof -
  from assms have r: "in_range T (x - 1)"
    by (simp add: in_range_def)
  have "cpp_binop Sub T x 1 = Inr (x - 1)"
  proof (cases "width T < int_width")
    case True
    with assms(1) r have "in_range \<lparr>is_signed = True, width = int_width\<rparr> (x - 1)"
      unfolding valid_type_def in_range_def int_min_def int_max_def int_width_def
      by (auto split: if_splits)
    with True show ?thesis by (simp add: promote_def arith_result_def)
  next
    case False
    with assms(1) r show ?thesis
      unfolding valid_type_def in_range_def int_min_def int_max_def
      by (auto simp: promote_def arith_result_def in_range_def int_min_def int_max_def
            split: if_splits)
  qed
  with assms(1) r show ?thesis
    by (simp add: int_arith_def cpp_assign_def convert_id)
qed

text \<open>
  C6 (increment and decrement). For every representation type, the prefix
  \<^verbatim>\<open>++\<close> replaces the stored scalar by what the primitive's own \<^verbatim>\<open>++\<close> makes of
  it and returns a reference to the object, which now holds the new value; the
  postfix \<^verbatim>\<open>++\<close> changes the object in the same way and returns a copy of the
  object as it was before. The same holds of \<^verbatim>\<open>--\<close>. For an integer representation
  type the primitive's step is one unit: a value below the maximum of the type is
  incremented to the next integer, and a value above the minimum is decremented to
  the previous one.
\<close>

theorem increment_decrement:
  "operator_pre_inc B this s =
     (case base_pre_inc B (value (s this)) of
        Inl e \<Rightarrow> Inl e
      | Inr v \<Rightarrow> Inr (this, s(this := \<lparr>value = v\<rparr>)))
   \<and> operator_post_inc B this s =
     (case base_pre_inc B (value (s this)) of
        Inl e \<Rightarrow> Inl e
      | Inr v \<Rightarrow> Inr (s this, s(this := \<lparr>value = v\<rparr>)))
   \<and> operator_pre_dec B this s =
     (case base_pre_dec B (value (s this)) of
        Inl e \<Rightarrow> Inl e
      | Inr v \<Rightarrow> Inr (this, s(this := \<lparr>value = v\<rparr>)))
   \<and> operator_post_dec B this s =
     (case base_pre_dec B (value (s this)) of
        Inl e \<Rightarrow> Inl e
      | Inr v \<Rightarrow> Inr (s this, s(this := \<lparr>value = v\<rparr>)))
   \<and> (valid_type T \<and> in_range T x \<and> x < int_max T \<longrightarrow>
        base_pre_inc (int_arith T) x = Inr (x + 1))
   \<and> (valid_type T \<and> in_range T x \<and> int_min T < x \<longrightarrow>
        base_pre_dec (int_arith T) x = Inr (x - 1))"
  by (simp add: pre_inc_result post_inc_result pre_dec_result post_dec_result
        int_pre_inc int_pre_dec)

text \<open>On \<^verbatim>\<open>int\<close>, for an object that holds 41.\<close>

theorem increment_decrement_witness:
  "valid_type int32 \<and> in_range int32 41 \<and> 41 < int_max int32 \<and> int_min int32 < 41
   \<and> operator_pre_inc (int_arith int32) 0 (two_objects 41 0) =
       Inr (0, (two_objects 41 0)(0 := \<lparr>value = 42\<rparr>))
   \<and> operator_post_inc (int_arith int32) 0 (two_objects 41 0) =
       Inr (\<lparr>value = 41\<rparr>, (two_objects 41 0)(0 := \<lparr>value = 42\<rparr>))
   \<and> operator_pre_dec (int_arith int32) 0 (two_objects 41 0) =
       Inr (0, (two_objects 41 0)(0 := \<lparr>value = 40\<rparr>))
   \<and> operator_post_dec (int_arith int32) 0 (two_objects 41 0) =
       Inr (\<lparr>value = 41\<rparr>, (two_objects 41 0)(0 := \<lparr>value = 40\<rparr>))"
  using increment_decrement [of "int_arith int32" 0 "two_objects 41 0" int32 41]
  by (simp add: int_eval int32_def two_objects_def)

subsection \<open>Comparison of strong values\<close>

lemma strong_cmp_int: "strong_cmp c int_cmp x y = base_cmp c int_cmp (value x) (value y)"
  by (cases c) (auto simp: strong_cmp_defs int_cmp_def)

lemma strong_cmp_double:
  "\<not> is_nan (value u) \<Longrightarrow> \<not> is_nan (value v) \<Longrightarrow>
   strong_cmp c double_cmp u v = base_cmp c double_cmp (value u) (value v)"
  by (cases c) (auto simp: strong_cmp_defs double_cmp_def double_lt_def double_eq_def)

lemma int_total_order:
  "(operator_le int_cmp x y \<or> operator_le int_cmp y x)
   \<and> (operator_le int_cmp x y \<and> operator_le int_cmp y z \<longrightarrow> operator_le int_cmp x z)
   \<and> (operator_le int_cmp x y \<and> operator_le int_cmp y x \<longrightarrow> operator_eq int_cmp x y)"
  by (auto simp: strong_cmp_defs int_cmp_def)

text \<open>
  For every representation type, \<^verbatim>\<open><\<close> and \<^verbatim>\<open>==\<close> are the primitive's on the raw
  values, and the other four are derived from these two.
\<close>

lemma strong_cmp_derived:
  "(operator_lt B a b \<longleftrightarrow> base_lt B (value a) (value b))
   \<and> (operator_eq B a b \<longleftrightarrow> base_eq B (value a) (value b))
   \<and> (operator_ne B a b \<longleftrightarrow> \<not> operator_eq B a b)
   \<and> (operator_gt B a b \<longleftrightarrow> operator_lt B b a)
   \<and> (operator_le B a b \<longleftrightarrow> \<not> operator_lt B b a)
   \<and> (operator_ge B a b \<longleftrightarrow> \<not> operator_lt B a b)"
  by (simp add: strong_cmp_defs)

text \<open>
  On doubles neither of which is a NaN the six operators form a total order, as on
  the integers; and \<^verbatim>\<open>==\<close>, \<^verbatim>\<open>!=\<close>, \<^verbatim>\<open><\<close> and \<^verbatim>\<open>>\<close> agree with the primitive's on
  every pair of doubles, a NaN included.
\<close>

lemma double_total_order_without_nan:
  assumes "\<not> is_nan (value x)" and "\<not> is_nan (value y)" and "\<not> is_nan (value z)"
  shows "(operator_le double_cmp x y \<or> operator_le double_cmp y x)
   \<and> (operator_le double_cmp x y \<and> operator_le double_cmp y z \<longrightarrow> operator_le double_cmp x z)
   \<and> (operator_le double_cmp x y \<and> operator_le double_cmp y x \<longrightarrow> operator_eq double_cmp x y)"
  using assms by (auto simp: strong_cmp_defs double_cmp_def double_lt_def double_eq_def)

lemma four_of_six_agree_on_nan:
  "c \<noteq> Le \<Longrightarrow> c \<noteq> Ge \<Longrightarrow>
   strong_cmp c double_cmp u v = base_cmp c double_cmp (value u) (value v)"
  by (cases c) (auto simp: strong_cmp_defs double_cmp_def double_lt_def double_eq_def)

lemma double_order_example:
  "operator_lt double_cmp (StrongType_ctor double_one) (StrongType_ctor double_two)
   \<and> operator_le double_cmp (StrongType_ctor double_one) (StrongType_ctor double_two)
   \<and> \<not> operator_ge double_cmp (StrongType_ctor double_one) (StrongType_ctor double_two)"
  by (simp add: StrongType_ctor_def strong_cmp_defs double_cmp_def double_lt_def
        double_key_def is_nan_def double_one_def double_two_def)

text \<open>
  C3 (ordering consistency). Evaluated with \<^verbatim>\<open>double\<close> as the representation
  type, \<open>a\<close> holding a NaN and \<open>b\<close> holding \<open>1.0\<close>: \<^verbatim>\<open>a <= b\<close>, \<^verbatim>\<open>b <= a\<close>, \<^verbatim>\<open>a >= b\<close>
  and \<^verbatim>\<open>b >= a\<close> all return true, while the primitive's \<^verbatim>\<open><=\<close> and \<^verbatim>\<open>>=\<close> on the
  raw values return false in both orders, and \<^verbatim>\<open>a == b\<close> is false; \<^verbatim>\<open><\<close> returns
  what the primitive's does.
\<close>

theorem ordering_nan:
  "operator_le double_cmp (StrongType_ctor quiet_NaN) (StrongType_ctor double_one) = True
   \<and> base_le double_cmp quiet_NaN double_one = False
   \<and> operator_le double_cmp (StrongType_ctor double_one) (StrongType_ctor quiet_NaN) = True
   \<and> base_le double_cmp double_one quiet_NaN = False
   \<and> operator_ge double_cmp (StrongType_ctor quiet_NaN) (StrongType_ctor double_one) = True
   \<and> base_ge double_cmp quiet_NaN double_one = False
   \<and> operator_ge double_cmp (StrongType_ctor double_one) (StrongType_ctor quiet_NaN) = True
   \<and> base_ge double_cmp double_one quiet_NaN = False
   \<and> operator_eq double_cmp (StrongType_ctor quiet_NaN) (StrongType_ctor double_one) = False
   \<and> operator_lt double_cmp (StrongType_ctor quiet_NaN) (StrongType_ctor double_one) = False
   \<and> base_lt double_cmp quiet_NaN double_one = False"
  by (simp add: StrongType_ctor_def strong_cmp_defs double_cmp_def double_lt_def
        double_eq_def is_nan_def quiet_NaN_def double_one_def)

subsection \<open>Comparison with a raw value\<close>

text \<open>
  C7 (literal-versus-variable asymmetry). For each of the six comparison
  operators and every representation type: a strong value compared with a
  \<^verbatim>\<open>BaseT\<close> rvalue, in either operand order, compiles and returns the primitive's
  comparison of the raw value with that rvalue; compared with a \<^verbatim>\<open>BaseT\<close> lvalue, in
  either order, it does not compile.
\<close>

theorem literal_comparison:
  "eval_comparison B c (Strong a) (Base Rvalue k) = Some (base_cmp c B (value a) k)
   \<and> eval_comparison B c (Base Rvalue k) (Strong a) = Some (base_cmp c B k (value a))
   \<and> eval_comparison B c (Strong a) (Base Lvalue k) = None
   \<and> eval_comparison B c (Base Lvalue k) (Strong a) = None"
  by (cases c) (simp_all add: eval_comparison_def viable_def mixed_cmp_defs)

text \<open>
  On an integer representation type a comparison with a raw value and the
  comparison with the strong value constructed from it return the same.
\<close>

lemma mixed_comparison_int:
  "strong_base_cmp c int_cmp a r = strong_cmp c int_cmp a (StrongType_ctor r)
   \<and> base_strong_cmp c int_cmp r a = strong_cmp c int_cmp (StrongType_ctor r) a"
  by (cases c) (auto simp: strong_cmp_defs mixed_cmp_defs int_cmp_def StrongType_ctor_def)

text \<open>The same holds of doubles when neither value is a NaN.\<close>

lemma mixed_comparison_double:
  "\<not> is_nan (value a) \<Longrightarrow> \<not> is_nan r \<Longrightarrow>
   strong_base_cmp c double_cmp a r = strong_cmp c double_cmp a (StrongType_ctor r)
   \<and> base_strong_cmp c double_cmp r a = strong_cmp c double_cmp (StrongType_ctor r) a"
  by (cases c)
     (auto simp: strong_cmp_defs mixed_cmp_defs double_cmp_def double_lt_def double_eq_def
        StrongType_ctor_def)

text \<open>
  C10 (mixed and strong comparisons agree). Evaluated with \<^verbatim>\<open>double\<close> as the
  representation type, \<open>a\<close> holding a NaN and \<open>r = 1.0\<close>: the mixed \<^verbatim>\<open>a <= r\<close>,
  \<^verbatim>\<open>a >= r\<close> and \<^verbatim>\<open>r <= a\<close> are false, as the primitive's comparisons are, while
  the comparisons of \<open>a\<close> with the strong value constructed from \<open>r\<close> are true.
\<close>

theorem mixed_comparison_nan:
  "operator_le_StrongT_BaseT double_cmp (StrongType_ctor quiet_NaN) double_one = False
   \<and> operator_le double_cmp (StrongType_ctor quiet_NaN) (StrongType_ctor double_one) = True
   \<and> operator_ge_StrongT_BaseT double_cmp (StrongType_ctor quiet_NaN) double_one = False
   \<and> operator_ge double_cmp (StrongType_ctor quiet_NaN) (StrongType_ctor double_one) = True
   \<and> operator_le_BaseT_StrongT double_cmp double_one (StrongType_ctor quiet_NaN) = False
   \<and> operator_le double_cmp (StrongType_ctor double_one) (StrongType_ctor quiet_NaN) = True
   \<and> eval_comparison double_cmp Le (Strong (StrongType_ctor quiet_NaN)) (Base Rvalue double_one)
       = Some False
   \<and> eval_comparison double_cmp Le (Strong (StrongType_ctor quiet_NaN))
        (Strong (StrongType_ctor double_one)) = Some True"
  by (simp add: StrongType_ctor_def strong_cmp_defs mixed_cmp_defs double_cmp_def double_lt_def
        double_eq_def is_nan_def quiet_NaN_def double_one_def eval_comparison_def viable_def)

subsection \<open>Streams\<close>

text \<open>
  C9 (stream fidelity). For every stream type and every inserter and extractor of
  the representation type: writing a strong value leaves the stream exactly as
  writing its raw value does, and reading into a strong value leaves the stream
  exactly as reading into a raw variable with the same content does, and the strong
  value then holds what that variable would hold. Nothing else is written or read.
\<close>

theorem stream_fidelity:
  "operator_shl put os x = put os (value x)
   \<and> operator_shr get is a s =
       (fst (get is (value (s a))), s(a := \<lparr>value = snd (get is (value (s a)))\<rparr>))"
  by (simp add: operator_shl_def operator_shr_def split: prod.splits)

text \<open>With \<^verbatim>\<open>int\<close> as the representation type.\<close>

lemma put_int_example: "operator_shl put_int ''x = '' (StrongType_ctor (-42)) = ''x = -42''"
  by (simp add: operator_shl_def put_int_def StrongType_ctor_def)

lemma get_int_example:
  "operator_shr get_int \<lparr>buf = '' 17 rest'', failbit = False, eofbit = False\<rparr> 0 (two_objects 0 0)
   = (\<lparr>buf = '' rest'', failbit = False, eofbit = False\<rparr>, (two_objects 0 0)(0 := \<lparr>value = 17\<rparr>))"
  by (simp add: operator_shr_def get_int_def is_space_def is_digit_def read_digits_def
        two_objects_def int_min_def int_max_def int32_def Let_def)

subsection \<open>Side effects\<close>

lemma binary_frame:
  "x \<noteq> p \<Longrightarrow>
   (case operator_binary op B p b (copy_init p a s) of
      Inl e \<Rightarrow> True
    | Inr (r, s') \<Rightarrow> s' x = s x)"
  by (simp add: operator_binary_eq operator_assign_eq copy_init_def assign_value_def
        return_copy_def split: sum.splits)

lemma scalar_frame:
  "x \<noteq> p \<Longrightarrow>
   (case operator_mul_StrongT_BaseT B p k (copy_init p a s) of
      Inl e \<Rightarrow> True
    | Inr (r, s') \<Rightarrow> s' x = s x)
   \<and> (case operator_mul_BaseT_StrongT B k p (copy_init p a s) of
      Inl e \<Rightarrow> True
    | Inr (r, s') \<Rightarrow> s' x = s x)
   \<and> (case operator_div_StrongT_BaseT B p k (copy_init p a s) of
      Inl e \<Rightarrow> True
    | Inr (r, s') \<Rightarrow> s' x = s x)"
  by (simp add: operator_mul_StrongT_BaseT_def operator_mul_BaseT_StrongT_def
        operator_div_StrongT_BaseT_def operator_mul_assign_BaseT_def
        operator_div_assign_BaseT_def copy_init_def assign_value_def return_copy_def
        split: sum.splits)

lemma assign_frame:
  "x \<noteq> p \<Longrightarrow>
   (case operator_assign op B p b s of
      Inl e \<Rightarrow> True
    | Inr (q, s') \<Rightarrow> q = p \<and> s' x = s x)
   \<and> (case operator_mul_assign_BaseT B p k s of
      Inl e \<Rightarrow> True
    | Inr (q, s') \<Rightarrow> q = p \<and> s' x = s x)
   \<and> (case operator_div_assign_BaseT B p k s of
      Inl e \<Rightarrow> True
    | Inr (q, s') \<Rightarrow> q = p \<and> s' x = s x)"
  by (simp add: operator_assign_eq operator_mul_assign_BaseT_def operator_div_assign_BaseT_def
        assign_value_def split: sum.splits)

lemma inc_dec_frame:
  "x \<noteq> p \<Longrightarrow>
   (case operator_pre_inc B p s of
      Inl e \<Rightarrow> True
    | Inr (q, s') \<Rightarrow> q = p \<and> s' x = s x)
   \<and> (case operator_post_inc B p s of
      Inl e \<Rightarrow> True
    | Inr (r, s') \<Rightarrow> s' x = s x)
   \<and> (case operator_pre_dec B p s of
      Inl e \<Rightarrow> True
    | Inr (q, s') \<Rightarrow> q = p \<and> s' x = s x)
   \<and> (case operator_post_dec B p s of
      Inl e \<Rightarrow> True
    | Inr (r, s') \<Rightarrow> s' x = s x)"
  by (simp add: pre_inc_result post_inc_result pre_dec_result post_dec_result
        split: sum.splits)

lemma shr_frame: "x \<noteq> p \<Longrightarrow> snd (operator_shr get is p s) x = s x"
  by (simp add: operator_shr_def split: prod.splits)

lemmas strong_cmp_st_defs = operator_eq_st_def operator_ne_st_def operator_lt_st_def
  operator_gt_st_def operator_le_st_def operator_ge_st_def

lemmas mixed_cmp_st_defs =
  operator_eq_StrongT_BaseT_st_def operator_ne_StrongT_BaseT_st_def
  operator_lt_StrongT_BaseT_st_def operator_gt_StrongT_BaseT_st_def
  operator_le_StrongT_BaseT_st_def operator_ge_StrongT_BaseT_st_def
  operator_eq_BaseT_StrongT_st_def operator_ne_BaseT_StrongT_st_def
  operator_lt_BaseT_StrongT_st_def operator_gt_BaseT_StrongT_st_def
  operator_le_BaseT_StrongT_st_def operator_ge_BaseT_StrongT_st_def

text \<open>
  A comparison on the store returns what the comparison of the objects read returns,
  and the store it was given.
\<close>

lemma strong_cmp_st_pure:
  "strong_cmp_st c B a b s = (strong_cmp c B (s a) (s b), s)"
  by (cases c) (simp_all add: strong_cmp_st_defs strong_cmp_defs)

lemma strong_base_cmp_st_pure:
  "strong_base_cmp_st c B a k s = (strong_base_cmp c B (s a) k, s)"
  by (cases c) (simp_all add: mixed_cmp_st_defs mixed_cmp_defs)

lemma base_strong_cmp_st_pure:
  "base_strong_cmp_st c B k a s = (base_strong_cmp c B k (s a), s)"
  by (cases c) (simp_all add: mixed_cmp_st_defs mixed_cmp_defs)

lemma shl_st_pure:
  "operator_shl_st put os a s = (operator_shl put os (s a), s)"
  by (simp add: operator_shl_st_def operator_shl_def)

text \<open>
  C8 (side effects), as amended. Each of the eighteen comparison operators, on
  two strong values or on a strong value and a raw rvalue in either order, returns
  the comparison of the objects it reads and leaves the whole store as it was: both
  operands are unchanged. Let \<open>x\<close> be the address of any object other than \<open>p\<close>. A
  binary arithmetic operator, between strong values or with a raw scalar, whose
  by-value parameter object is \<open>p\<close>, leaves \<open>x\<close> as it was: it writes to its own
  copy of the left operand only, so both operands of the caller are unchanged. A
  compound assignment, a prefix or a postfix increment or decrement applied to the
  object at \<open>p\<close> leaves \<open>x\<close> as it was, and the assignments and the prefix forms
  return a reference to \<open>p\<close>. An extraction into the object at \<open>p\<close> leaves \<open>x\<close> as
  it was. An insertion leaves the whole store as it was, the strong value it writes
  included, and changes the stream as the primitive's inserter does.
\<close>

theorem side_effects:
  assumes "x \<noteq> p"
  shows
    "strong_cmp_st c B a b s = (strong_cmp c B (s a) (s b), s)
     \<and> strong_base_cmp_st c B a k s = (strong_base_cmp c B (s a) k, s)
     \<and> base_strong_cmp_st c B k a s = (base_strong_cmp c B k (s a), s)
     \<and> operator_shl_st put os a s = (put os (value (s a)), s)
     \<and> (case operator_binary op A p b (copy_init p a s) of
        Inl e \<Rightarrow> True
      | Inr (r, s') \<Rightarrow> s' x = s x)
     \<and> (case operator_mul_StrongT_BaseT A p k (copy_init p a s) of
        Inl e \<Rightarrow> True
      | Inr (r, s') \<Rightarrow> s' x = s x)
     \<and> (case operator_mul_BaseT_StrongT A k p (copy_init p a s) of
        Inl e \<Rightarrow> True
      | Inr (r, s') \<Rightarrow> s' x = s x)
     \<and> (case operator_div_StrongT_BaseT A p k (copy_init p a s) of
        Inl e \<Rightarrow> True
      | Inr (r, s') \<Rightarrow> s' x = s x)
     \<and> (case operator_assign op A p b s of
        Inl e \<Rightarrow> True
      | Inr (q, s') \<Rightarrow> q = p \<and> s' x = s x)
     \<and> (case operator_mul_assign_BaseT A p k s of
        Inl e \<Rightarrow> True
      | Inr (q, s') \<Rightarrow> q = p \<and> s' x = s x)
     \<and> (case operator_div_assign_BaseT A p k s of
        Inl e \<Rightarrow> True
      | Inr (q, s') \<Rightarrow> q = p \<and> s' x = s x)
     \<and> (case operator_pre_inc A p s of
        Inl e \<Rightarrow> True
      | Inr (q, s') \<Rightarrow> q = p \<and> s' x = s x)
     \<and> (case operator_post_inc A p s of
        Inl e \<Rightarrow> True
      | Inr (r, s') \<Rightarrow> s' x = s x)
     \<and> (case operator_pre_dec A p s of
        Inl e \<Rightarrow> True
      | Inr (q, s') \<Rightarrow> q = p \<and> s' x = s x)
     \<and> (case operator_post_dec A p s of
        Inl e \<Rightarrow> True
      | Inr (r, s') \<Rightarrow> s' x = s x)
     \<and> snd (operator_shr get is p s) x = s x"
  using assms
  by (simp add: strong_cmp_st_pure strong_base_cmp_st_pure base_strong_cmp_st_pure
        shl_st_pure operator_shl_def binary_frame scalar_frame assign_frame inc_dec_frame
        shr_frame)

text \<open>
  On \<^verbatim>\<open>int\<close>, with 40 in the object at 0 and 2 in the object at 1: \<open>40 + 2\<close> with
  the parameter object at 2 leaves the object at 0 unchanged; \<open>40 <= 2\<close>,
  \<open>40 > 7\<close> and \<open>7 != 40\<close> and the insertion of the object at 0 leave the store
  unchanged.
\<close>

theorem side_effects_witness:
  "(0::addr) \<noteq> 2
   \<and> operator_binary Add (int_arith int32) 2 1 (copy_init 2 0 (two_objects 40 2)) =
       Inr (\<lparr>value = 42\<rparr>, (two_objects 40 2)(2 := \<lparr>value = 42\<rparr>))
   \<and> ((two_objects 40 2)(2 := \<lparr>value = 42\<rparr>)) 0 = two_objects 40 (2::int) 0
   \<and> operator_le_st int_cmp 0 1 (two_objects 40 2) = (False, two_objects 40 2)
   \<and> operator_gt_StrongT_BaseT_st int_cmp 0 7 (two_objects 40 2) = (True, two_objects 40 2)
   \<and> operator_ne_BaseT_StrongT_st int_cmp 7 0 (two_objects 40 2) = (True, two_objects 40 2)
   \<and> operator_shl_st put_int [] 0 (two_objects 40 2) = (''40'', two_objects 40 2)"
  using side_effects [where x = 0 and p = 2 and op = Add and A = "int_arith int32" and b = 1
      and a = 0 and s = "two_objects 40 2" and c = Le and B = int_cmp and put = put_int
      and os = "[]"]
    side_effects [where x = 0 and p = 2 and a = 0 and s = "two_objects 40 2" and c = Gt
      and B = int_cmp and k = 7]
    side_effects [where x = 0 and p = 2 and a = 0 and s = "two_objects 40 2" and c = Ne
      and B = int_cmp and k = 7]
  by (simp add: operator_add_def operator_add_assign_def assign_value_def return_copy_def
        copy_init_def int_arith_def int_eval int32_def two_objects_def strong_cmp_st_defs
        mixed_cmp_st_defs operator_shl_st_def int_cmp_def put_int_def)

text \<open>
  The stream operators are neither compound assignments nor increments, and they
  change their operands: an extraction from the text \<open>5\<close> into a strong \<^verbatim>\<open>int\<close> that
  holds 0 leaves 5 in it, and an insertion of 42 into an empty output stream leaves
  the text \<open>42\<close> in the stream.
\<close>

theorem side_effects_counterexample:
  "value (two_objects 0 0 0) = (0::int)
   \<and> value (snd (operator_shr get_int \<lparr>buf = ''5'', failbit = False, eofbit = False\<rparr> 0
        (two_objects 0 0)) 0) = 5
   \<and> snd (operator_shr get_int \<lparr>buf = ''5'', failbit = False, eofbit = False\<rparr> 0
        (two_objects 0 0)) 0 \<noteq> two_objects 0 (0::int) 0
   \<and> operator_shl put_int [] (StrongType_ctor 42) = ''42''
   \<and> operator_shl put_int [] (StrongType_ctor 42) \<noteq> []"
  by (simp add: operator_shr_def operator_shl_def get_int_def put_int_def is_space_def
        is_digit_def read_digits_def two_objects_def int_min_def int_max_def int32_def
        StrongType_ctor_def Let_def)

subsection \<open>The compile-time constraints\<close>

text \<open>
  C2 (compile-time constraints). Evaluated on an unscoped enumeration as the tag
  type, with an integer representation type: neither assertion fails, so the
  instantiation is accepted, as it is for a scoped enumeration. A tag type that is
  no enumeration and a representation type that is not arithmetic are each
  rejected with the message of their assertion.
\<close>

theorem static_assert_unscoped:
  "StrongType_static_asserts Unscoped_enum Integer_type = []
   \<and> StrongType_static_asserts Scoped_enum Integer_type = []
   \<and> StrongType_static_asserts Integer_type Integer_type =
       [''StrongType must be instantiated with scoped enum (enum class)'']
   \<and> StrongType_static_asserts Scoped_enum Class_type =
       [''StrongType only available for arithmetic types'']"
  by (simp add: StrongType_static_asserts_def static_assert_def)

end
